theory Spec2Isabelle
  imports Main "HOL-Library.Word"
begin

unbundle bit_operations_syntax

section \<open>The po2zone device-mapper target (dm-po2zone)\<close>

text \<open>
  The target presents a zoned block device whose zones hold an arbitrary number of
  sectors as a device whose zones have a power-of-two size. The C code computes on
  \<open>sector_t\<close> (an unsigned 64-bit integer) and \<open>unsigned int\<close> (32 bits); both are
  modelled as machine words, so every truncation and wrap-around of the C code is
  part of the model.
\<close>

type_synonym sector_t = "64 word"
type_synonym uint = "32 word"

subsection \<open>Data\<close>

text \<open>\<open>struct dm_po2z_target\<close>. The device is an opaque identifier.\<close>

record dm_po2z_target =
  dev :: nat
  zone_size :: sector_t
  zone_size_po2 :: sector_t
  zone_size_po2_shift :: uint
  zone_size_diff :: sector_t
  nr_zones :: uint

text \<open>The request operations of the block layer (\<open>bio_op\<close> of a bio).\<close>

datatype req_op =
    REQ_OP_READ
  | REQ_OP_WRITE
  | REQ_OP_FLUSH
  | REQ_OP_DISCARD
  | REQ_OP_SECURE_ERASE
  | REQ_OP_WRITE_SAME
  | REQ_OP_WRITE_ZEROES
  | REQ_OP_ZONE_OPEN
  | REQ_OP_ZONE_CLOSE
  | REQ_OP_ZONE_FINISH
  | REQ_OP_ZONE_APPEND
  | REQ_OP_ZONE_RESET
  | REQ_OP_ZONE_RESET_ALL
  | REQ_OP_DRV_IN
  | REQ_OP_DRV_OUT

text \<open>
  \<open>struct bio\<close>, as far as the target reads or writes it: the device, the operation,
  the completion status (\<open>blk_status_t\<close>, a byte), the start sector and the length in
  bytes of \<open>bi_iter\<close>. \<open>bi_data\<close> stands for the payload bytes and \<open>bi_ended\<close> records
  that the bio was completed by the target itself.
\<close>

record bio =
  bi_bdev :: nat
  bi_op :: req_op
  bi_status :: "8 word"
  bi_sector :: sector_t
  bi_size :: uint
  bi_data :: "8 word list"
  bi_ended :: bool

datatype dm_mapio = DM_MAPIO_SUBMITTED | DM_MAPIO_REMAPPED | DM_MAPIO_KILL

datatype dm_endio = DM_ENDIO_DONE

text \<open>\<open>struct blk_zone\<close>: the descriptor of one zone in a zone report.\<close>

record blk_zone =
  zone_start :: sector_t
  zone_len :: sector_t
  zone_wp :: sector_t
  zone_type :: "8 word"
  zone_cond :: "8 word"
  zone_non_seq :: "8 word"
  zone_reset :: "8 word"
  zone_capacity :: sector_t

text \<open>
  \<open>struct dm_report_zones_args\<close>: the caller's cursor, the caller's callback and the
  index of the next zone handed to it. The callback is a pure function of the zone and
  the index here; its result is the return value of the report callback.
\<close>

record dm_report_zones_args =
  next_sector :: sector_t
  zone_idx :: uint
  orig_cb :: "blk_zone \<Rightarrow> uint \<Rightarrow> int"

text \<open>\<open>struct dm_target\<close>, as far as the constructor reads or writes it.\<close>

record dm_target =
  ti_begin :: sector_t
  ti_len :: sector_t
  ti_max_io_len :: uint
  ti_error :: string

subsection \<open>Block-layer helpers\<close>

definition SECTOR_SHIFT :: nat where
  "SECTOR_SHIFT = 9"

definition BLK_STS_OK :: "8 word" where
  "BLK_STS_OK = 0"

definition bio_op :: "bio \<Rightarrow> req_op" where
  "bio_op b = bi_op b"

text \<open>\<open>bio_sectors\<close>: the length of the bio in whole sectors, an \<open>unsigned int\<close>.\<close>

definition bio_sectors :: "bio \<Rightarrow> uint" where
  "bio_sectors b = drop_bit SECTOR_SHIFT (bi_size b)"

text \<open>
  Modelled from the spec: \<open>op_is_zone_mgmt\<close> is block-layer code outside the target's
  file. The zone-management commands are the operations that reset, open, close or
  finish one zone; the reset of all zones is not among them.
\<close>

definition op_is_zone_mgmt :: "req_op \<Rightarrow> bool" where
  "op_is_zone_mgmt op =
     (case op of
        REQ_OP_ZONE_RESET \<Rightarrow> True
      | REQ_OP_ZONE_OPEN \<Rightarrow> True
      | REQ_OP_ZONE_CLOSE \<Rightarrow> True
      | REQ_OP_ZONE_FINISH \<Rightarrow> True
      | _ \<Rightarrow> False)"

definition bio_set_dev :: "bio \<Rightarrow> nat \<Rightarrow> bio" where
  "bio_set_dev b d = b\<lparr>bi_bdev := d\<rparr>"

text \<open>
  Modelled from the spec: \<open>dm_accept_partial_bio\<close> is device-mapper code outside the
  target's file. It mutates the accepted length of the in-flight request to the given
  number of sectors (an \<open>unsigned int\<close> parameter); the framework resubmits the rest.
\<close>

definition dm_accept_partial_bio :: "bio \<Rightarrow> uint \<Rightarrow> bio" where
  "dm_accept_partial_bio b n_sectors = b\<lparr>bi_size := push_bit SECTOR_SHIFT n_sectors\<rparr>"


text \<open>
  Modelled from the spec: \<open>zero_fill_bio\<close> and \<open>bio_endio\<close> are block-layer code outside
  the target's file. The first fills the entire result with zero bytes, the second
  signals completion.
\<close>

definition zero_fill_bio :: "bio \<Rightarrow> bio" where
  "zero_fill_bio b = b\<lparr>bi_data := map (\<lambda>_. 0) (bi_data b)\<rparr>"

definition bio_endio :: "bio \<Rightarrow> bio" where
  "bio_endio b = b\<lparr>bi_ended := True\<rparr>"

subsection \<open>Zone numbers and the two coordinate transforms\<close>

text \<open>
  \<open>npo2_zone_no\<close> divides by the zone size of the device (\<open>div64_u64\<close>) and returns an
  \<open>unsigned int\<close>: the quotient is cut to 32 bits. A division by zero is a divide
  error of the processor; it is the result \<open>None\<close> here and in every function that
  calls this one.
\<close>

definition npo2_zone_no :: "dm_po2z_target \<Rightarrow> sector_t \<Rightarrow> uint option" where
  "npo2_zone_no dmh sect =
     (if zone_size dmh = 0 then None else Some (ucast (sect div zone_size dmh)))"

text \<open>
  \<open>po2_zone_no\<close> shifts right and returns an \<open>unsigned int\<close> as well. The shift of C
  is defined for counts below 64, which is what the constructor stores; for a larger
  count the model yields the zone number 0.
\<close>

definition po2_zone_no :: "dm_po2z_target \<Rightarrow> sector_t \<Rightarrow> uint" where
  "po2_zone_no dmh sect = ucast (drop_bit (unat (zone_size_po2_shift dmh)) sect)"

text \<open>
  In both transforms the zone number is converted back to 64 bits for the
  multiplication with \<open>zone_size_diff\<close>, which wraps, as do the subtraction and the
  addition.
\<close>

definition target_to_device_sect :: "dm_po2z_target \<Rightarrow> sector_t \<Rightarrow> sector_t" where
  "target_to_device_sect dmh sect =
     sect - ucast (po2_zone_no dmh sect) * zone_size_diff dmh"

definition device_to_target_sect :: "dm_po2z_target \<Rightarrow> sector_t \<Rightarrow> sector_t option" where
  "device_to_target_sect dmh sect =
     (case npo2_zone_no dmh sect of
        None \<Rightarrow> None
      | Some zone_no \<Rightarrow> Some (sect + ucast zone_no * zone_size_diff dmh))"

subsection \<open>Zone reports\<close>

text \<open>
  \<open>dm_po2z_report_zones_cb\<close> returns the result of the caller's callback, the
  descriptor as rewritten in place and the updated arguments. The index parameter of
  the callback is not used by the code.
\<close>

definition dm_po2z_report_zones_cb ::
  "dm_po2z_target \<Rightarrow> blk_zone \<Rightarrow> uint \<Rightarrow> dm_report_zones_args
     \<Rightarrow> (int \<times> blk_zone \<times> dm_report_zones_args) option" where
  "dm_po2z_report_zones_cb dmh zone idx args =
     (case device_to_target_sect dmh (zone_start zone) of
        None \<Rightarrow> None
      | Some start \<Rightarrow>
          (let zone1 = zone\<lparr>zone_start := start\<rparr>
           in case device_to_target_sect dmh (zone_wp zone1) of
                None \<Rightarrow> None
              | Some wp \<Rightarrow>
                  (let zone2 = zone1\<lparr>zone_wp := wp\<rparr>;
                       zone3 = zone2\<lparr>zone_len := zone_size_po2 dmh\<rparr>;
                       args1 = args\<lparr>next_sector := zone_start zone3 + zone_len zone3\<rparr>;
                       args2 = args1\<lparr>zone_idx := zone_idx args1 + 1\<rparr>
                   in Some (orig_cb args1 zone3 (zone_idx args1), zone3, args2))))"

text \<open>
  \<open>dm_po2z_report_zones\<close> hands the query to \<open>blkdev_report_zones\<close> of the device. The
  model returns the arguments of that call: the device, the start sector of the
  physical query and the number of zones asked for.
\<close>

record report_query =
  query_bdev :: nat
  query_sector :: sector_t
  query_nr_zones :: uint

definition dm_po2z_report_zones ::
  "dm_po2z_target \<Rightarrow> dm_report_zones_args \<Rightarrow> uint \<Rightarrow> report_query" where
  "dm_po2z_report_zones dmh args nr =
     (let sect = ucast (po2_zone_no dmh (next_sector args)) * zone_size dmh
      in \<lparr>query_bdev = dev dmh, query_sector = sect, query_nr_zones = nr\<rparr>)"

subsection \<open>Completion\<close>

definition dm_po2z_end_io :: "dm_po2z_target \<Rightarrow> bio \<Rightarrow> (dm_endio \<times> bio) option" where
  "dm_po2z_end_io dmh b =
     (if bi_status b = BLK_STS_OK \<and> bio_op b = REQ_OP_ZONE_APPEND
      then (case device_to_target_sect dmh (bi_sector b) of
              None \<Rightarrow> None
            | Some sect \<Rightarrow> Some (DM_ENDIO_DONE, b\<lparr>bi_sector := sect\<rparr>))
      else Some (DM_ENDIO_DONE, b))"

subsection \<open>Mapping of requests\<close>

definition bio_across_emulated_zone_area :: "dm_po2z_target \<Rightarrow> bio \<Rightarrow> bool" where
  "bio_across_emulated_zone_area dmh b =
     (let zone_idx = po2_zone_no dmh (bi_sector b);
          nr_sectors = (ucast (drop_bit SECTOR_SHIFT (bi_size b)) :: sector_t)
      in bi_sector b + nr_sectors > ucast zone_idx * zone_size_po2 dmh + zone_size dmh)"

definition dm_po2z_map_read_emulated_area ::
  "dm_po2z_target \<Rightarrow> bio \<Rightarrow> dm_mapio \<times> bio" where
  "dm_po2z_map_read_emulated_area dmh b =
     (let start_sect = bi_sector b;
          zone_idx = po2_zone_no dmh start_sect;
          relative_sect_in_zone = start_sect - ucast zone_idx * zone_size_po2 dmh
      in if relative_sect_in_zone < zone_size dmh
         then (let split_io_pos = ucast zone_idx * zone_size_po2 dmh + zone_size dmh;
                   b1 = dm_accept_partial_bio b (ucast (split_io_pos - start_sect));
                   b2 = b1\<lparr>bi_sector := target_to_device_sect dmh start_sect\<rparr>
               in (DM_MAPIO_REMAPPED, b2))
         else (DM_MAPIO_SUBMITTED, bio_endio (zero_fill_bio b)))"

definition dm_po2z_map :: "dm_po2z_target \<Rightarrow> bio \<Rightarrow> dm_mapio \<times> bio" where
  "dm_po2z_map dmh b0 =
     (let b = bio_set_dev b0 (dev dmh)
      in if bio_sectors b \<noteq> 0 \<or> op_is_zone_mgmt (bio_op b)
         then (if \<not> bio_across_emulated_zone_area dmh b
               then (DM_MAPIO_REMAPPED,
                     b\<lparr>bi_sector := target_to_device_sect dmh (bi_sector b)\<rparr>)
               else if bio_op b = REQ_OP_READ
               then dm_po2z_map_read_emulated_area dmh b
               else (DM_MAPIO_KILL, b))
         else (DM_MAPIO_REMAPPED, b))"

subsection \<open>Construction\<close>

text \<open>
  Modelled from the spec: \<open>fls_long\<close>, \<open>get_count_order_long\<close> and \<open>ilog2\<close> are
  bit-operation helpers of the kernel outside the target's file. \<open>fls\<close> is the position
  of the most significant set bit, counted from 1, and 0 for 0. The spec takes the
  logical zone size to be the smallest power of two at or above the physical one and the
  shift to be its binary logarithm: \<open>get_count_order_long l\<close> is the exponent of the
  smallest power of two that is at least \<open>l\<close>, which is \<open>fls (l - 1)\<close>, and -1 for 0;
  \<open>ilog2 n\<close> is \<open>fls n - 1\<close>.
\<close>

fun fls :: "nat \<Rightarrow> nat" where
  "fls n = (if n = 0 then 0 else Suc (fls (n div 2)))"

declare fls.simps [simp del]

definition get_count_order_long :: "sector_t \<Rightarrow> int" where
  "get_count_order_long l = (if l = 0 then - 1 else int (fls (unat (l - 1))))"

definition ilog2 :: "sector_t \<Rightarrow> int" where
  "ilog2 n = int (fls (unat n)) - 1"

text \<open>
  The left shift of C on the type \<open>int\<close> (32 bits, signed): the expression
  \<open>1 << n\<close> of the constructor has this type, whatever it is assigned to. C defines
  the result when the count lies in \<open>0..31\<close> and the value fits an \<open>int\<close>; the
  constructor does not test either. Outside that range the model follows the shift
  instruction of the 64-bit targets of the kernel: the count is taken modulo 32 and the
  32 bits of the result are read as a signed value.
\<close>

definition shl_int :: "int \<Rightarrow> int \<Rightarrow> int" where
  "shl_int a n =
     (let v = (a * 2 ^ nat (n mod 32)) mod 2 ^ 32
      in if v < 2 ^ 31 then v else v - 2 ^ 32)"

text \<open>
  What the constructor obtains from its environment: whether \<open>kmalloc\<close> succeeds and the
  (uninitialised) memory it returns, the result of \<open>dm_get_device\<close> and the device it
  yields, the zone size of that device (\<open>bdev_zone_sectors\<close>) and its capacity
  (\<open>get_capacity\<close>).
\<close>

record ctr_env =
  kmalloc_ok :: bool
  kmalloc_mem :: dm_po2z_target
  dm_get_device_ret :: int
  dm_get_device_dev :: nat
  bdev_zone_sectors :: sector_t
  get_capacity :: sector_t

text \<open>
  The ways the constructor ends without a geometry: the returns \<open>-EINVAL\<close>,
  \<open>-ENOMEM\<close> and the error code of \<open>dm_get_device\<close>, and the divide error of the
  processor, which is a fault and not a return.
\<close>

datatype ctr_failure = EINVAL | ENOMEM | Lookup_failed int | Divide_error

text \<open>
  \<open>dm_po2z_ctr\<close>. A failure returns the target as it was left; success (the return
  value 0) returns the updated target and the geometry stored in \<open>ti->private\<close>. The
  conversion of the \<open>int\<close> to \<open>sector_t\<close> extends the sign (\<open>word_of_int\<close>). The warning
  for a zone size that is a power of two already only writes to the log and is left out.
\<close>

definition dm_po2z_ctr ::
  "ctr_env \<Rightarrow> dm_target \<Rightarrow> uint \<Rightarrow> ctr_failure \<times> dm_target + dm_target \<times> dm_po2z_target" where
  "dm_po2z_ctr env ti argc =
     (if argc \<noteq> 1 then Inl (EINVAL, ti)
      else if \<not> kmalloc_ok env then Inl (ENOMEM, ti)
      else if dm_get_device_ret env \<noteq> 0
      then Inl (Lookup_failed (dm_get_device_ret env), ti\<lparr>ti_error := ''Device lookup failed''\<rparr>)
      else
        (let dmh0 = (kmalloc_mem env)\<lparr>dev := dm_get_device_dev env\<rparr>;
             zone_size_v = bdev_zone_sectors env;
             dev_capacity = get_capacity env
         in if ti_len ti \<noteq> dev_capacity \<or> ti_begin ti \<noteq> 0 then Inl (EINVAL, ti)
            else
              (let dmh1 = dmh0\<lparr>zone_size := zone_size_v\<rparr>;
                   dmh2 = dmh1\<lparr>zone_size_po2 :=
                            word_of_int (shl_int 1 (get_count_order_long zone_size_v))\<rparr>;
                   dmh3 = dmh2\<lparr>zone_size_po2_shift := word_of_int (ilog2 (zone_size_po2 dmh2))\<rparr>;
                   dmh4 = dmh3\<lparr>zone_size_diff := zone_size_po2 dmh3 - zone_size dmh3\<rparr>;
                   ti1 = ti\<lparr>ti_max_io_len := ucast (zone_size_po2 dmh4)\<rparr>
               in case npo2_zone_no dmh4 (ti_len ti1) of
                    None \<Rightarrow> Inl (Divide_error, ti1)
                  | Some n \<Rightarrow>
                      (let dmh5 = dmh4\<lparr>nr_zones := n\<rparr>;
                           ti2 = ti1\<lparr>ti_len := zone_size_po2 dmh5 * ucast (nr_zones dmh5)\<rparr>
                       in Inr (ti2, dmh5)))))"

subsection \<open>Well-formed geometries and sectors of the logical device\<close>

text \<open>
  The invariants of the geometry that the constructor establishes for zone sizes up to
  \<open>2 ^ 30\<close> sectors: the physical zone
  size is positive, the logical zone size is the power of two given by the shift and is
  at least the physical one, the difference is stored, and the length of the logical
  device (\<open>zone_size_po2 * nr_zones\<close>, which the constructor stores in a \<open>sector_t\<close>)
  fits 64 bits.
\<close>

definition target_len :: "dm_po2z_target \<Rightarrow> nat" where
  "target_len dmh = unat (zone_size_po2 dmh) * unat (nr_zones dmh)"

definition zone_geometry :: "dm_po2z_target \<Rightarrow> bool" where
  "zone_geometry dmh \<longleftrightarrow>
     zone_size dmh \<noteq> 0 \<and>
     unat (zone_size_po2_shift dmh) < 64 \<and>
     zone_size_po2 dmh = 2 ^ unat (zone_size_po2_shift dmh) \<and>
     zone_size dmh \<le> zone_size_po2 dmh \<and>
     zone_size_diff dmh = zone_size_po2 dmh - zone_size dmh \<and>
     target_len dmh < 2 ^ 64"

text \<open>A logical sector: a sector of the logical device, below its length.\<close>

definition sect_on_target :: "dm_po2z_target \<Rightarrow> sector_t \<Rightarrow> bool" where
  "sect_on_target dmh sect \<longleftrightarrow> unat sect < target_len dmh"

text \<open>
  A request of the logical device: it starts on the device and does not reach beyond
  its end.
\<close>

definition bio_on_target :: "dm_po2z_target \<Rightarrow> bio \<Rightarrow> bool" where
  "bio_on_target dmh b \<longleftrightarrow>
     sect_on_target dmh (bi_sector b) \<and>
     unat (bi_sector b) + unat (bio_sectors b) \<le> target_len dmh"

text \<open>
  The logical offset of the boundary between the physically backed and the emulated
  part of the logical zone that holds a sector, as a natural number:
  \<open>zone_idx * logical_zone_size + physical_zone_size\<close>.
\<close>

definition boundary :: "dm_po2z_target \<Rightarrow> sector_t \<Rightarrow> nat" where
  "boundary dmh sect =
     unat (po2_zone_no dmh sect) * unat (zone_size_po2 dmh) + unat (zone_size dmh)"

text \<open>The geometry of the example of the specification: zones of 12 sectors, 10 zones.\<close>

definition geom12 :: dm_po2z_target where
  "geom12 = \<lparr>dev = 0, zone_size = 12, zone_size_po2 = 16, zone_size_po2_shift = 4,
             zone_size_diff = 4, nr_zones = 10\<rparr>"

text \<open>
  A geometry whose physical zone size is a power of two already: zones of 16 sectors, 10
  zones, no emulated part.
\<close>

definition geom16 :: dm_po2z_target where
  "geom16 = \<lparr>dev = 0, zone_size = 16, zone_size_po2 = 16, zone_size_po2_shift = 4,
             zone_size_diff = 0, nr_zones = 10\<rparr>"

subsection \<open>Example requests, zones and devices\<close>



definition write_16_20 :: bio where
  "write_16_20 = \<lparr>bi_bdev = 1, bi_op = REQ_OP_WRITE, bi_status = 0, bi_sector = 16,
                   bi_size = 2048, bi_data = [1, 2, 3], bi_ended = False\<rparr>"

definition write_10_14 :: bio where
  "write_10_14 = \<lparr>bi_bdev = 1, bi_op = REQ_OP_WRITE, bi_status = 0, bi_sector = 10,
                   bi_size = 2048, bi_data = [1, 2, 3], bi_ended = False\<rparr>"

definition empty_write_13 :: bio where
  "empty_write_13 = \<lparr>bi_bdev = 1, bi_op = REQ_OP_WRITE, bi_status = 0, bi_sector = 13,
                      bi_size = 0, bi_data = [], bi_ended = False\<rparr>"

definition flush_16 :: bio where
  "flush_16 = \<lparr>bi_bdev = 1, bi_op = REQ_OP_FLUSH, bi_status = 0, bi_sector = 16,
                bi_size = 0, bi_data = [], bi_ended = False\<rparr>"

definition append_14 :: bio where
  "append_14 = \<lparr>bi_bdev = 0, bi_op = REQ_OP_ZONE_APPEND, bi_status = 0, bi_sector = 14,
                 bi_size = 1024, bi_data = [1, 2, 3], bi_ended = False\<rparr>"

text \<open>The second physical zone of the example device, with two sectors written.\<close>

definition zone_12 :: blk_zone where
  "zone_12 = \<lparr>zone_start = 12, zone_len = 12, zone_wp = 14, zone_type = 2, zone_cond = 2,
               zone_non_seq = 0, zone_reset = 0, zone_capacity = 12\<rparr>"

definition args_12 :: dm_report_zones_args where
  "args_12 = \<lparr>next_sector = 12, zone_idx = 1, orig_cb = (\<lambda>z i. 0)\<rparr>"

text \<open>
  The environment of the constructor for the example device (12 sectors per zone, 120
  sectors), for a device of ten zones of 16 sectors, for a device of 3 sectors per zone with \<open>2 ^ 32\<close> zones, and for a device
  of four zones of \<open>2 ^ 30 + 1\<close> sectors.
\<close>

definition env12 :: ctr_env where
  "env12 = \<lparr>kmalloc_ok = True, kmalloc_mem = geom12\<lparr>nr_zones := 77\<rparr>, dm_get_device_ret = 0,
             dm_get_device_dev = 0, bdev_zone_sectors = 12, get_capacity = 120\<rparr>"

definition ti12 :: dm_target where
  "ti12 = \<lparr>ti_begin = 0, ti_len = 120, ti_max_io_len = 0, ti_error = []\<rparr>"

definition env16 :: ctr_env where
  "env16 = \<lparr>kmalloc_ok = True, kmalloc_mem = geom12, dm_get_device_ret = 0,
             dm_get_device_dev = 0, bdev_zone_sectors = 16, get_capacity = 160\<rparr>"

definition ti16 :: dm_target where
  "ti16 = \<lparr>ti_begin = 0, ti_len = 160, ti_max_io_len = 0, ti_error = []\<rparr>"

definition env_many :: ctr_env where
  "env_many = \<lparr>kmalloc_ok = True, kmalloc_mem = geom12, dm_get_device_ret = 0,
                dm_get_device_dev = 0, bdev_zone_sectors = 3, get_capacity = 12884901888\<rparr>"

definition ti_many :: dm_target where
  "ti_many = \<lparr>ti_begin = 0, ti_len = 12884901888, ti_max_io_len = 0, ti_error = []\<rparr>"

definition env_large :: ctr_env where
  "env_large = \<lparr>kmalloc_ok = True, kmalloc_mem = geom12, dm_get_device_ret = 0,
                 dm_get_device_dev = 0, bdev_zone_sectors = 1073741825,
                 get_capacity = 4294967300\<rparr>"

definition ti_large :: dm_target where
  "ti_large = \<lparr>ti_begin = 0, ti_len = 4294967300, ti_max_io_len = 0, ti_error = []\<rparr>"


section \<open>Arithmetic of the geometry\<close>

subsection \<open>Words and natural numbers\<close>

lemma unat_uint_bound: "unat (z :: uint) < 2 ^ 32"
  using unsigned_less [of z] by simp

lemma unat_sector_bound: "unat (s :: sector_t) < 2 ^ 64"
  using unsigned_less [of s] by simp

lemma unat_two_power_64: "n < 64 \<Longrightarrow> unat (2 ^ n :: sector_t) = 2 ^ n"
proof -
  assume n: "n < 64"
  have "(2 ^ n :: sector_t) = of_nat (2 ^ n)" by simp
  then have "unat (2 ^ n :: sector_t) = 2 ^ n mod 2 ^ 64"
    by (simp only: unat_of_nat) simp
  moreover have "(2::nat) ^ n < 2 ^ 64"
    by (rule power_strict_increasing) (use n in simp_all)
  ultimately show ?thesis by simp
qed

lemma ucast_zone_no_unat: "unat (ucast (z :: uint) :: sector_t) = unat z"
proof -
  have "unat z < 2 ^ 64" using unat_uint_bound [of z] by simp
  then show ?thesis by (simp add: unsigned_ucast_eq take_bit_nat_eq_self)
qed

lemma ucast_sector_unat:
  "unat (s :: sector_t) < 2 ^ 32 \<Longrightarrow> unat (ucast s :: uint) = unat s"
  by (simp add: unsigned_ucast_eq take_bit_nat_eq_self)

lemma geometry_po2:
  assumes "zone_geometry dmh"
  shows "unat (zone_size_po2 dmh) = 2 ^ unat (zone_size_po2_shift dmh)"
proof -
  from assms [unfolded zone_geometry_def]
  have "unat (zone_size_po2_shift dmh) < 64"
    and "zone_size_po2 dmh = 2 ^ unat (zone_size_po2_shift dmh)"
    by blast+
  then show ?thesis using unat_two_power_64 by metis
qed

lemma geometry_zone_size:
  assumes "zone_geometry dmh"
  shows "0 < unat (zone_size dmh)" and "unat (zone_size dmh) \<le> unat (zone_size_po2 dmh)"
proof -
  from assms [unfolded zone_geometry_def]
  have "zone_size dmh \<noteq> 0" and "zone_size dmh \<le> zone_size_po2 dmh"
    by blast+
  then show "0 < unat (zone_size dmh)" and "unat (zone_size dmh) \<le> unat (zone_size_po2 dmh)"
    by (simp_all add: unat_gt_0 word_le_nat_alt)
qed

lemma geometry_diff:
  assumes "zone_geometry dmh"
  shows "unat (zone_size_diff dmh) = unat (zone_size_po2 dmh) - unat (zone_size dmh)"
proof -
  from assms [unfolded zone_geometry_def]
  have "zone_size_diff dmh = zone_size_po2 dmh - zone_size dmh"
    and "zone_size dmh \<le> zone_size_po2 dmh"
    by blast+
  then show ?thesis by (simp add: unat_sub)
qed

lemma geometry_po2_pos: "zone_geometry dmh \<Longrightarrow> 0 < unat (zone_size_po2 dmh)"
  by (simp add: geometry_po2)

lemma zone_index_bound:
  assumes "sect_on_target dmh s"
  shows "unat s div unat (zone_size_po2 dmh) < unat (nr_zones dmh)"
  using assms
  by (simp add: sect_on_target_def target_len_def less_mult_imp_div_less mult.commute)

lemma po2_zone_no_unat:
  assumes g: "zone_geometry dmh" and s: "sect_on_target dmh s"
  shows "unat (po2_zone_no dmh s) = unat s div unat (zone_size_po2 dmh)"
proof -
  have "unat s div unat (zone_size_po2 dmh) < 2 ^ 32"
    using zone_index_bound [OF s] unat_uint_bound [of "nr_zones dmh"] by linarith
  then have "unat (drop_bit (unat (zone_size_po2_shift dmh)) s) < 2 ^ 32"
    by (simp add: unat_drop_bit_eq drop_bit_nat_def geometry_po2 [OF g])
  then have "unat (po2_zone_no dmh s) = unat (drop_bit (unat (zone_size_po2_shift dmh)) s)"
    unfolding po2_zone_no_def by (rule ucast_sector_unat)
  then show ?thesis
    by (simp add: unat_drop_bit_eq drop_bit_nat_def geometry_po2 [OF g])
qed

lemma unat_zone_times:
  assumes "unat (z :: uint) * unat (x :: sector_t) < 2 ^ 64"
  shows "unat (ucast z * x) = unat z * unat x"
proof -
  have "unat (ucast z :: sector_t) * unat x < 2 ^ LENGTH(64)"
    using assms by (simp add: ucast_zone_no_unat)
  then have "unat (ucast z * x) = unat (ucast z :: sector_t) * unat x"
    by (simp only: unat_mult_lem)
  then show ?thesis by (simp add: ucast_zone_no_unat)
qed

lemma zone_start_le:
  assumes g: "zone_geometry dmh" and s: "sect_on_target dmh s"
  shows "unat (po2_zone_no dmh s) * unat (zone_size_po2 dmh) \<le> unat s"
  by (simp add: po2_zone_no_unat [OF g s])

lemma zone_offset:
  assumes g: "zone_geometry dmh" and s: "sect_on_target dmh s"
  shows "unat s = unat (po2_zone_no dmh s) * unat (zone_size_po2 dmh)
           + unat s mod unat (zone_size_po2 dmh)"
  by (simp add: po2_zone_no_unat [OF g s])

lemma unat_target_to_device_sect:
  assumes g: "zone_geometry dmh" and s: "sect_on_target dmh s"
  shows "unat (target_to_device_sect dmh s) =
           unat s - unat (po2_zone_no dmh s) * (unat (zone_size_po2 dmh) - unat (zone_size dmh))"
proof -
  let ?z = "po2_zone_no dmh s"
  let ?d = "zone_size_diff dmh"
  have d: "unat ?d = unat (zone_size_po2 dmh) - unat (zone_size dmh)"
    by (rule geometry_diff [OF g])
  have le: "unat ?z * unat ?d \<le> unat s"
  proof -
    have "unat ?z * unat ?d \<le> unat ?z * unat (zone_size_po2 dmh)"
      by (simp add: d)
    also have "\<dots> \<le> unat s" by (rule zone_start_le [OF g s])
    finally show ?thesis .
  qed
  then have "unat ?z * unat ?d < 2 ^ 64"
    using unat_sector_bound [of s] by linarith
  then have m: "unat (ucast ?z * ?d) = unat ?z * unat ?d"
    by (rule unat_zone_times)
  then have "ucast ?z * ?d \<le> s"
    using le by (simp add: word_le_nat_alt)
  then have "unat (s - ucast ?z * ?d) = unat s - unat (ucast ?z * ?d)"
    by (rule unat_sub)
  then show ?thesis
    by (simp add: target_to_device_sect_def m d)
qed

lemma unat_target_to_device_sect_backed:
  assumes g: "zone_geometry dmh" and s: "sect_on_target dmh s"
    and b: "unat s mod unat (zone_size_po2 dmh) < unat (zone_size dmh)"
  shows "unat (target_to_device_sect dmh s) =
           unat (po2_zone_no dmh s) * unat (zone_size dmh) + unat s mod unat (zone_size_po2 dmh)"
proof -
  let ?z = "unat (po2_zone_no dmh s)"
  let ?P = "unat (zone_size_po2 dmh)"
  let ?Z = "unat (zone_size dmh)"
  have le: "?Z \<le> ?P" by (rule geometry_zone_size(2) [OF g])
  have "unat s - ?z * (?P - ?Z) = (?z * ?P + unat s mod ?P) - ?z * (?P - ?Z)"
    using zone_offset [OF g s] by simp
  also have "\<dots> = ?z * ?Z + unat s mod ?P"
  proof -
    have "?z * ?P = ?z * (?P - ?Z) + ?z * ?Z"
      using le by (simp add: distrib_left [symmetric])
    then show ?thesis by simp
  qed
  finally show ?thesis
    by (simp add: unat_target_to_device_sect [OF g s])
qed

lemma npo2_zone_no_target_to_device_sect:
  assumes g: "zone_geometry dmh" and s: "sect_on_target dmh s"
    and b: "unat s mod unat (zone_size_po2 dmh) < unat (zone_size dmh)"
  shows "npo2_zone_no dmh (target_to_device_sect dmh s) = Some (po2_zone_no dmh s)"
proof -
  let ?z = "unat (po2_zone_no dmh s)"
  let ?Z = "unat (zone_size dmh)"
  let ?t = "target_to_device_sect dmh s"
  have pos: "0 < ?Z" by (rule geometry_zone_size(1) [OF g])
  then have nz: "zone_size dmh \<noteq> 0" by auto
  have "unat (?t div zone_size dmh) = unat ?t div ?Z"
    by (rule unat_div)
  also have "\<dots> = ?z"
    using pos b by (simp add: unat_target_to_device_sect_backed [OF g s b])
  finally have q: "unat (?t div zone_size dmh) = ?z" .
  then have "unat (?t div zone_size dmh) < 2 ^ 32"
    using unat_uint_bound [of "po2_zone_no dmh s"] by simp
  then have "unat (ucast (?t div zone_size dmh) :: uint) = unat (?t div zone_size dmh)"
    by (rule ucast_sector_unat)
  then have "unat (ucast (?t div zone_size dmh) :: uint) = ?z" using q by simp
  then have "(ucast (?t div zone_size dmh) :: uint) = po2_zone_no dmh s"
    by (rule unsigned_word_eqI)
  then show ?thesis using nz by (simp add: npo2_zone_no_def)
qed

subsection \<open>The boundary of a zone and the test of the mapper\<close>

lemma geometry_target_len: "zone_geometry dmh \<Longrightarrow> target_len dmh < 2 ^ 64"
  unfolding zone_geometry_def by blast

lemma boundary_le_target_len:
  assumes g: "zone_geometry dmh" and s: "sect_on_target dmh s"
  shows "boundary dmh s \<le> target_len dmh"
proof -
  let ?P = "unat (zone_size_po2 dmh)"
  have z: "unat (po2_zone_no dmh s) < unat (nr_zones dmh)"
    using zone_index_bound [OF s] by (simp add: po2_zone_no_unat [OF g s])
  have "boundary dmh s \<le> unat (po2_zone_no dmh s) * ?P + ?P"
    using geometry_zone_size(2) [OF g] by (simp add: boundary_def)
  also have "\<dots> = Suc (unat (po2_zone_no dmh s)) * ?P" by simp
  also have "\<dots> \<le> unat (nr_zones dmh) * ?P"
    using z by (intro mult_le_mono1) simp
  finally show ?thesis by (simp add: target_len_def mult.commute)
qed

lemma unat_split_io_pos:
  assumes g: "zone_geometry dmh" and s: "sect_on_target dmh s"
  shows "unat (ucast (po2_zone_no dmh s) * zone_size_po2 dmh + zone_size dmh) = boundary dmh s"
proof -
  have lt: "boundary dmh s < 2 ^ 64"
    using boundary_le_target_len [OF g s] geometry_target_len [OF g] by linarith
  then have "unat (po2_zone_no dmh s) * unat (zone_size_po2 dmh) < 2 ^ 64"
    by (simp add: boundary_def)
  then have m: "unat (ucast (po2_zone_no dmh s) * zone_size_po2 dmh) =
                  unat (po2_zone_no dmh s) * unat (zone_size_po2 dmh)"
    by (rule unat_zone_times)
  then have "unat (ucast (po2_zone_no dmh s) * zone_size_po2 dmh) + unat (zone_size dmh)
               < 2 ^ LENGTH(64)"
    using lt by (simp add: boundary_def)
  then have "unat (ucast (po2_zone_no dmh s) * zone_size_po2 dmh + zone_size dmh) =
               unat (ucast (po2_zone_no dmh s) * zone_size_po2 dmh) + unat (zone_size dmh)"
    by (simp only: unat_add_lem)
  then show ?thesis by (simp add: m boundary_def)
qed

lemma unat_bio_end:
  assumes "unat (bi_sector b) + unat (bio_sectors b) < 2 ^ 64"
  shows "unat (bi_sector b + ucast (drop_bit SECTOR_SHIFT (bi_size b))) =
           unat (bi_sector b) + unat (bio_sectors b)"
proof -
  have n: "unat (ucast (drop_bit SECTOR_SHIFT (bi_size b)) :: sector_t) = unat (bio_sectors b)"
    by (simp add: bio_sectors_def ucast_zone_no_unat)
  then have "unat (bi_sector b) + unat (ucast (drop_bit SECTOR_SHIFT (bi_size b)) :: sector_t)
               < 2 ^ LENGTH(64)"
    using assms by simp
  then have "unat (bi_sector b + ucast (drop_bit SECTOR_SHIFT (bi_size b))) =
               unat (bi_sector b) + unat (ucast (drop_bit SECTOR_SHIFT (bi_size b)) :: sector_t)"
    by (simp only: unat_add_lem)
  then show ?thesis using n by simp
qed

lemma bio_across_iff:
  assumes g: "zone_geometry dmh" and s: "sect_on_target dmh (bi_sector b)"
    and e: "unat (bi_sector b) + unat (bio_sectors b) < 2 ^ 64"
  shows "bio_across_emulated_zone_area dmh b \<longleftrightarrow>
           boundary dmh (bi_sector b) < unat (bi_sector b) + unat (bio_sectors b)"
  by (simp add: bio_across_emulated_zone_area_def Let_def word_less_nat_alt
        unat_split_io_pos [OF g s] unat_bio_end [OF e])

lemma bio_on_target_end:
  assumes g: "zone_geometry dmh" and b: "bio_on_target dmh b"
  shows "unat (bi_sector b) + unat (bio_sectors b) < 2 ^ 64"
  using b geometry_target_len [OF g] by (simp add: bio_on_target_def)

lemma bio_set_dev_simps:
  "bi_sector (bio_set_dev b d) = bi_sector b"
  "bi_size (bio_set_dev b d) = bi_size b"
  "bio_sectors (bio_set_dev b d) = bio_sectors b"
  "bio_op (bio_set_dev b d) = bio_op b"
  by (simp_all add: bio_set_dev_def bio_sectors_def bio_op_def)

lemma bio_across_set_dev:
  "bio_across_emulated_zone_area dmh (bio_set_dev b d) = bio_across_emulated_zone_area dmh b"
  by (simp add: bio_across_emulated_zone_area_def bio_set_dev_def)














subsection \<open>The constructor\<close>

lemma fls_le_iff: "fls m \<le> j \<longleftrightarrow> m < 2 ^ j"
proof (induction m arbitrary: j rule: fls.induct)
  case (1 n)
  show ?case
  proof (cases "n = 0")
    case True
    then show ?thesis by (simp add: fls.simps)
  next
    case False
    have f: "fls n = Suc (fls (n div 2))" using False by (simp add: fls.simps)
    show ?thesis
    proof (cases j)
      case 0
      then show ?thesis using False f by simp
    next
      case (Suc j')
      have "fls n \<le> j \<longleftrightarrow> fls (n div 2) \<le> j'" using f Suc by simp
      also have "\<dots> \<longleftrightarrow> n div 2 < 2 ^ j'" using "1.IH" [OF False] .
      also have "\<dots> \<longleftrightarrow> n < 2 ^ j" using Suc by auto
      finally show ?thesis .
    qed
  qed
qed

lemma fls_two_power: "fls (2 ^ k) = Suc k"
proof -
  have "fls (2 ^ k) \<le> Suc k" by (simp add: fls_le_iff)
  moreover have "\<not> fls (2 ^ k) \<le> k" by (simp add: fls_le_iff)
  ultimately show ?thesis by linarith
qed

lemma count_order_upper:
  assumes "0 < n"
  shows "n \<le> 2 ^ fls (n - 1)"
proof -
  have "n - 1 < 2 ^ fls (n - 1)" using fls_le_iff [of "n - 1" "fls (n - 1)"] by simp
  then show ?thesis using assms by linarith
qed

lemma count_order_least:
  assumes "0 < n" and "n \<le> 2 ^ j"
  shows "fls (n - 1) \<le> j"
proof -
  have "n - 1 < 2 ^ j" using assms by linarith
  then show ?thesis by (simp add: fls_le_iff)
qed

lemma get_count_order_long_eq:
  assumes "l \<noteq> 0"
  shows "get_count_order_long l = int (fls (unat (l - 1)))"
  using assms by (simp add: get_count_order_long_def)

lemma word_count_order_upper:
  assumes "l \<noteq> (0 :: sector_t)"
  shows "unat l \<le> 2 ^ fls (unat (l - 1))"
proof -
  have "0 < unat l" using assms by (simp add: unat_gt_0)
  then have "unat l \<le> 2 ^ fls (unat l - 1)" by (rule count_order_upper)
  then show ?thesis by (simp only: unat_minus_one [OF assms])
qed

lemma word_count_order_least:
  assumes "l \<noteq> (0 :: sector_t)" and "unat l \<le> 2 ^ j"
  shows "fls (unat (l - 1)) \<le> j"
proof -
  have "0 < unat l" using assms(1) by (simp add: unat_gt_0)
  then have "fls (unat l - 1) \<le> j" using assms(2) by (rule count_order_least)
  then show ?thesis by (simp only: unat_minus_one [OF assms(1)])
qed

lemma shl_int_one: "k \<le> 30 \<Longrightarrow> shl_int 1 (int k) = 2 ^ k"
proof -
  assume k: "k \<le> 30"
  then have "(2::int) ^ k \<le> 2 ^ 30" by (intro power_increasing) simp_all
  then have lt: "(2::int) ^ k < 2 ^ 31" by simp
  then have "(2::int) ^ k < 2 ^ 32" by simp
  then have "(2::int) ^ k mod 2 ^ 32 = 2 ^ k" by (intro mod_pos_pos_trivial) simp_all
  moreover have "int k mod 32 = int k" using k by simp
  ultimately show ?thesis using lt by (simp add: shl_int_def Let_def)
qed

lemma ilog2_two_power: "k < 64 \<Longrightarrow> ilog2 (2 ^ k) = int k"
  by (simp add: ilog2_def unat_two_power_64 fls_two_power)

lemma ctr_success:
  assumes a: "argc = 1" and m: "kmalloc_ok env" and d: "dm_get_device_ret env = 0"
    and l: "ti_len ti = get_capacity env" and b: "ti_begin ti = 0"
    and z: "bdev_zone_sectors env \<noteq> 0" and zb: "unat (bdev_zone_sectors env) \<le> 2 ^ 30"
  shows "dm_po2z_ctr env ti argc =
    Inr (ti\<lparr>ti_max_io_len := ucast (2 ^ fls (unat (bdev_zone_sectors env - 1)) :: sector_t),
            ti_len := 2 ^ fls (unat (bdev_zone_sectors env - 1))
                      * ucast (ucast (get_capacity env div bdev_zone_sectors env) :: uint)\<rparr>,
         (kmalloc_mem env)\<lparr>dev := dm_get_device_dev env,
            zone_size := bdev_zone_sectors env,
            zone_size_po2 := 2 ^ fls (unat (bdev_zone_sectors env - 1)),
            zone_size_po2_shift := word_of_nat (fls (unat (bdev_zone_sectors env - 1))),
            zone_size_diff := 2 ^ fls (unat (bdev_zone_sectors env - 1)) - bdev_zone_sectors env,
            nr_zones := ucast (get_capacity env div bdev_zone_sectors env)\<rparr>)"
proof -
  let ?k = "fls (unat (bdev_zone_sectors env - 1))"
  have pos: "0 < unat (bdev_zone_sectors env)" using z by (simp add: unat_gt_0)
  have k: "?k \<le> 30" using z zb by (rule word_count_order_least)
  have sh: "shl_int 1 (get_count_order_long (bdev_zone_sectors env)) = 2 ^ ?k"
    using shl_int_one [OF k] by (simp add: get_count_order_long_eq [OF z])
  have il: "ilog2 (2 ^ ?k) = int ?k" using k by (intro ilog2_two_power) simp
  show ?thesis
    using a m d l b z il
    by (simp add: dm_po2z_ctr_def Let_def sh npo2_zone_no_def)
qed

lemma ctr_geometry_facts:
  assumes z: "zs \<noteq> (0 :: sector_t)" and zb: "unat zs \<le> 2 ^ 30"
  defines "k \<equiv> fls (unat (zs - 1))"
  shows "k \<le> 30" and "unat (2 ^ k :: sector_t) = 2 ^ k"
    and "unat (word_of_nat k :: uint) = k"
    and "unat zs \<le> 2 ^ k" and "zs \<le> 2 ^ k"
    and "unat (2 ^ k - zs) = 2 ^ k - unat zs"
proof -
  have pos: "0 < unat zs" using z by (simp add: unat_gt_0)
  show k: "k \<le> 30" unfolding k_def using z zb by (rule word_count_order_least)
  show p: "unat (2 ^ k :: sector_t) = 2 ^ k" using k by (intro unat_two_power_64) simp
  show "unat (word_of_nat k :: uint) = k" using k by (simp add: unat_of_nat)
  show u: "unat zs \<le> 2 ^ k" unfolding k_def using z by (rule word_count_order_upper)
  then show w: "zs \<le> 2 ^ k" by (simp add: word_le_nat_alt p)
  then show "unat (2 ^ k - zs) = 2 ^ k - unat zs" by (simp add: unat_sub p)
qed

lemma two_power_le_62:
  assumes "k \<le> 30" and "n < (2::nat) ^ 32"
  shows "2 ^ k * n < (2::nat) ^ 64"
proof -
  have "(2::nat) ^ k \<le> 2 ^ 30" using assms(1) by (intro power_increasing) simp_all
  then have "2 ^ k * n \<le> 2 ^ 30 * n" by (rule mult_le_mono1)
  also have "\<dots> < 2 ^ 30 * 2 ^ 32" using assms(2) by simp
  also have "\<dots> \<le> (2::nat) ^ 64" by simp
  finally show ?thesis .
qed

lemma ctr_zone_geometry:
  assumes c: "dm_po2z_ctr env ti argc = Inr (ti', dmh)"
    and zb: "unat (bdev_zone_sectors env) \<le> 2 ^ 30"
  shows "zone_geometry dmh"
proof -
  let ?zs = "bdev_zone_sectors env"
  let ?k = "fls (unat (?zs - 1))"
  from c have a: "argc = 1" and m: "kmalloc_ok env" and d: "dm_get_device_ret env = 0"
    and l: "ti_len ti = get_capacity env" and b: "ti_begin ti = 0"
    by (auto simp add: dm_po2z_ctr_def Let_def split: if_splits)
  have z: "?zs \<noteq> 0"
    using c a m d l b
    by (auto simp add: dm_po2z_ctr_def Let_def npo2_zone_no_def split: if_splits)
  note f = ctr_geometry_facts [OF z zb]
  have dmh: "dmh = (kmalloc_mem env)\<lparr>dev := dm_get_device_dev env,
            zone_size := ?zs,
            zone_size_po2 := 2 ^ ?k,
            zone_size_po2_shift := word_of_nat ?k,
            zone_size_diff := 2 ^ ?k - ?zs,
            nr_zones := ucast (get_capacity env div ?zs)\<rparr>"
    using c by (simp add: ctr_success [OF a m d l b z zb])
  have "2 ^ ?k * unat (nr_zones dmh) < (2::nat) ^ 64"
    using f(1) unat_uint_bound by (rule two_power_le_62)
  then have "target_len dmh < 2 ^ 64"
    by (simp add: target_len_def dmh f(2))
  moreover have "unat (zone_size_po2_shift dmh) < 64"
    using f(1) by (simp add: dmh f(3))
  ultimately show ?thesis
    using z f(5) by (simp add: zone_geometry_def dmh f(3))
qed

lemma count_order_values:
  "get_count_order_long 3 = 2" "get_count_order_long 12 = 4"
  "get_count_order_long 16 = 4" "get_count_order_long 1073741825 = 31"
  by (simp_all add: get_count_order_long_def fls.simps)

lemma shl_int_values:
  "shl_int 1 2 = 4" "shl_int 1 4 = 16" "shl_int 1 31 = - 2147483648"
  by (simp_all add: shl_int_def)

lemma ilog2_values:
  "ilog2 4 = 2" "ilog2 16 = 4" "ilog2 (- 2147483648) = 63"
  by (simp_all add: ilog2_def fls.simps)

lemmas ctr_eval =
  dm_po2z_ctr_def Let_def count_order_values shl_int_values ilog2_values npo2_zone_no_def

text \<open>
  A zone size above \<open>2 ^ 30\<close> sectors needs the shift \<open>1 << 31\<close>, which does not fit
  the type \<open>int\<close> of the expression: the constructor returns 0 with a logical zone size
  that is no power of two and lies far above the physical one.
\<close>

lemma ctr_large_zone_malformed:
  "dm_po2z_ctr env_large ti_large 1 =
     Inr (ti_large\<lparr>ti_max_io_len := 2147483648, ti_len := 18446744065119617024\<rparr>,
          \<lparr>dev = 0, zone_size = 1073741825, zone_size_po2 = 18446744071562067968,
            zone_size_po2_shift = 63, zone_size_diff = 18446744070488326143,
            nr_zones = 4\<rparr>)"
  by (simp add: ctr_eval env_large_def ti_large_def geom12_def)

subsection \<open>The example geometry\<close>

lemma geom12_geometry: "zone_geometry geom12"
  by (simp add: zone_geometry_def geom12_def target_len_def)

lemma geom12_sectors:
  "sect_on_target geom12 10" "sect_on_target geom12 12" "sect_on_target geom12 13"
  "sect_on_target geom12 16" "sect_on_target geom12 20"
  by (simp_all add: sect_on_target_def geom12_def target_len_def)

lemma geom12_boundary:
  "boundary geom12 10 = 12" "boundary geom12 12 = 12"
  "boundary geom12 13 = 12" "boundary geom12 16 = 28"
  by (simp_all add: boundary_def geom12_def po2_zone_no_def)


lemma ctr_builds_geom16:
  "dm_po2z_ctr env16 ti16 1 = Inr (ti16\<lparr>ti_max_io_len := 16, ti_len := 160\<rparr>, geom16)"
  by (simp add: ctr_eval env16_def ti16_def geom16_def geom12_def)

lemmas geom12_eval =
  geom12_def po2_zone_no_def npo2_zone_no_def target_to_device_sect_def
  device_to_target_sect_def

lemmas map_eval =
  dm_po2z_map_def dm_po2z_map_read_emulated_area_def bio_across_emulated_zone_area_def
  bio_set_dev_def bio_sectors_def bio_op_def op_is_zone_mgmt_def SECTOR_SHIFT_def
  zero_fill_bio_def bio_endio_def dm_accept_partial_bio_def Let_def

section \<open>Properties of the target\<close>

subsection \<open>The coordinate transforms\<close>

text \<open>
  Claim C1. For every logical sector \<open>s\<close> that does not fall in an emulated region (its
  offset within its logical zone is less than the physical zone size), translating to
  the device and back gives \<open>s\<close> again:
  \<open>device_to_target_sect (target_to_device_sect s)\<close> is \<open>s\<close>. A logical sector is a sector
  of the logical device of a well-formed geometry; its zone number is below
  \<open>nr_zones\<close> and so survives the conversion to \<open>unsigned int\<close>.
\<close>

theorem transform_round_trip:
  assumes g: "zone_geometry dmh" and s: "sect_on_target dmh s"
    and b: "unat s mod unat (zone_size_po2 dmh) < unat (zone_size dmh)"
  shows "device_to_target_sect dmh (target_to_device_sect dmh s) = Some s"
proof -
  have "device_to_target_sect dmh (target_to_device_sect dmh s) =
          Some (target_to_device_sect dmh s + ucast (po2_zone_no dmh s) * zone_size_diff dmh)"
    by (simp add: device_to_target_sect_def npo2_zone_no_target_to_device_sect [OF g s b])
  also have "\<dots> = Some s"
    by (simp add: target_to_device_sect_def)
  finally show ?thesis .
qed

theorem transform_round_trip_witness:
  "zone_geometry geom12 \<and> sect_on_target geom12 20 \<and>
   unat (20 :: sector_t) mod unat (zone_size_po2 geom12) < unat (zone_size geom12) \<and>
   target_to_device_sect geom12 20 = 16 \<and>
   device_to_target_sect geom12 (target_to_device_sect geom12 20) = Some 20"
proof -
  have b: "unat (20 :: sector_t) mod unat (zone_size_po2 geom12) < unat (zone_size geom12)"
    by (simp add: geom12_def)
  have t: "target_to_device_sect geom12 20 = 16"
    by (simp add: geom12_eval)
  show ?thesis
    using transform_round_trip [OF geom12_geometry geom12_sectors(5) b]
      geom12_geometry geom12_sectors(5) b t
    by simp
qed

text \<open>
  Claim C10. For every logical sector \<open>s\<close> whose offset within its logical zone is less
  than the physical zone size, the remapped sector lies in the physical zone of the same
  number, at the same offset: \<open>target_to_device_sect s\<close> is
  \<open>po2_zone_no s * zone_size + s mod zone_size_po2\<close> (as natural numbers, so nothing
  wraps), and \<open>npo2_zone_no (target_to_device_sect s)\<close> is \<open>po2_zone_no s\<close>.
\<close>

theorem remap_stays_in_zone:
  assumes g: "zone_geometry dmh" and s: "sect_on_target dmh s"
    and b: "unat s mod unat (zone_size_po2 dmh) < unat (zone_size dmh)"
  shows "unat (target_to_device_sect dmh s) =
           unat (po2_zone_no dmh s) * unat (zone_size dmh) + unat s mod unat (zone_size_po2 dmh)
         \<and> npo2_zone_no dmh (target_to_device_sect dmh s) = Some (po2_zone_no dmh s)
         \<and> unat (target_to_device_sect dmh s) mod unat (zone_size dmh) =
             unat s mod unat (zone_size_po2 dmh)"
proof -
  have e: "unat (target_to_device_sect dmh s) =
      unat (po2_zone_no dmh s) * unat (zone_size dmh) + unat s mod unat (zone_size_po2 dmh)"
    by (rule unat_target_to_device_sect_backed [OF g s b])
  have "unat (target_to_device_sect dmh s) mod unat (zone_size dmh) =
      unat s mod unat (zone_size_po2 dmh)"
    using b by (simp add: e)
  then show ?thesis
    using e npo2_zone_no_target_to_device_sect [OF g s b] by simp
qed

theorem remap_stays_in_zone_witness:
  "zone_geometry geom12 \<and> sect_on_target geom12 20 \<and>
   unat (20 :: sector_t) mod unat (zone_size_po2 geom12) < unat (zone_size geom12) \<and>
   unat (target_to_device_sect geom12 20) = 1 * 12 + 4 \<and>
   npo2_zone_no geom12 (target_to_device_sect geom12 20) = Some 1 \<and>
   po2_zone_no geom12 20 = 1"
proof -
  have b: "unat (20 :: sector_t) mod unat (zone_size_po2 geom12) < unat (zone_size geom12)"
    by (simp add: geom12_def)
  have z: "po2_zone_no geom12 20 = 1"
    by (simp add: geom12_eval)
  have m: "unat (zone_size_po2 geom12) = 16" "unat (zone_size geom12) = 12"
    by (simp_all add: geom12_def)
  show ?thesis
    using remap_stays_in_zone [OF geom12_geometry geom12_sectors(5) b]
      geom12_geometry geom12_sectors(5) b
    by (simp add: z m)
qed

subsection \<open>Construction of the geometry\<close>

text \<open>
  Claim C5, as stated, fails on a device with many small zones. With 3 sectors per zone
  and a capacity of \<open>3 * 2 ^ 32\<close> sectors the quotient \<open>capacity / zone_size\<close> is
  \<open>2 ^ 32\<close>, but \<open>npo2_zone_no\<close> returns an \<open>unsigned int\<close>: the constructor stores
  \<open>nr_zones = 0\<close> and a logical length of 0.
\<close>

theorem ctr_zone_count_truncated:
  "dm_po2z_ctr env_many ti_many 1 =
     Inr (ti_many\<lparr>ti_max_io_len := 4, ti_len := 0\<rparr>,
          \<lparr>dev = 0, zone_size = 3, zone_size_po2 = 4, zone_size_po2_shift = 2,
            zone_size_diff = 1, nr_zones = 0\<rparr>) \<and>
   unat (get_capacity env_many) div unat (bdev_zone_sectors env_many) = 4294967296"
  by (simp add: ctr_eval env_many_def ti_many_def geom12_def)

text \<open>
  Claim C5, amended. For every physical zone size with \<open>0 < zone_size \<le> 2 ^ 30\<close> and
  every capacity with \<open>capacity div zone_size < 2 ^ 32\<close>, the constructor (called with one
  argument for the whole device, allocation and device lookup succeeding) returns a
  geometry whose logical zone size is \<open>2 ^ k\<close> for the least \<open>k\<close> with
  \<open>zone_size \<le> 2 ^ k\<close>, equal to the physical size exactly when that is a power of
  two already; the shift is \<open>k\<close>, the difference is \<open>2 ^ k - zone_size\<close>, the zone count
  is \<open>capacity div zone_size\<close> and the length of the logical device is
  \<open>2 ^ k * nr_zones\<close>. Beyond \<open>2 ^ 30\<close> the shift \<open>1 << k\<close> leaves the range of \<open>int\<close>;
  nothing is stated about that.
\<close>

theorem ctr_builds_geometry:
  assumes a: "argc = 1" and m: "kmalloc_ok env" and d: "dm_get_device_ret env = 0"
    and l: "ti_len ti = get_capacity env" and b: "ti_begin ti = 0"
    and z: "0 < unat (bdev_zone_sectors env)" and zb: "unat (bdev_zone_sectors env) \<le> 2 ^ 30"
    and nz: "unat (get_capacity env) div unat (bdev_zone_sectors env) < 2 ^ 32"
  shows "\<exists>ti' dmh k.
      dm_po2z_ctr env ti argc = Inr (ti', dmh) \<and>
      zone_size dmh = bdev_zone_sectors env \<and>
      unat (zone_size_po2 dmh) = 2 ^ k \<and>
      unat (zone_size_po2_shift dmh) = k \<and>
      unat (zone_size dmh) \<le> 2 ^ k \<and>
      (\<forall>j. unat (zone_size dmh) \<le> 2 ^ j \<longrightarrow> k \<le> j) \<and>
      (zone_size_po2 dmh = zone_size dmh \<longleftrightarrow> (\<exists>j. unat (zone_size dmh) = 2 ^ j)) \<and>
      unat (zone_size_diff dmh) = 2 ^ k - unat (zone_size dmh) \<and>
      unat (nr_zones dmh) = unat (get_capacity env) div unat (bdev_zone_sectors env) \<and>
      unat (ti_len ti') = 2 ^ k * unat (nr_zones dmh)"
proof -
  let ?zs = "bdev_zone_sectors env"
  let ?k = "fls (unat (?zs - 1))"
  let ?nz = "ucast (get_capacity env div ?zs) :: uint"
  have z0: "?zs \<noteq> 0" using z by auto
  note f = ctr_geometry_facts [OF z0 zb]
  have least: "\<forall>j. unat ?zs \<le> 2 ^ j \<longrightarrow> ?k \<le> j"
    using z0 by (auto intro: word_count_order_least)
  have n: "unat ?nz = unat (get_capacity env) div unat ?zs"
    using nz by (simp add: ucast_sector_unat unat_div)
  have "2 ^ ?k * unat ?nz < (2::nat) ^ 64"
    using f(1) unat_uint_bound by (rule two_power_le_62)
  then have "unat (2 ^ ?k :: sector_t) * unat ?nz < 2 ^ 64" by (simp only: f(2))
  then have "unat (ucast ?nz * (2 ^ ?k :: sector_t)) = unat ?nz * unat (2 ^ ?k :: sector_t)"
    by (intro unat_zone_times) (simp add: mult.commute)
  then have len: "unat (2 ^ ?k * ucast ?nz :: sector_t) = 2 ^ ?k * unat ?nz"
    by (simp add: mult.commute f(2))
  have eq: "(2 ^ ?k = ?zs) \<longleftrightarrow> (\<exists>j. unat ?zs = 2 ^ j)"
  proof
    assume "2 ^ ?k = ?zs"
    then have "unat ?zs = 2 ^ ?k" using f(2) by simp
    then show "\<exists>j. unat ?zs = 2 ^ j" ..
  next
    assume "\<exists>j. unat ?zs = 2 ^ j"
    then obtain j where j: "unat ?zs = 2 ^ j" ..
    then have "?k \<le> j" using least by simp
    then have "(2::nat) ^ ?k \<le> 2 ^ j" by (intro power_increasing) simp_all
    then have "unat (2 ^ ?k :: sector_t) = unat ?zs" using f(4) j by (simp add: f(2))
    then show "2 ^ ?k = ?zs" by (rule unsigned_word_eqI)
  qed
  show ?thesis
    apply (rule exI [where x = "ti\<lparr>ti_max_io_len := ucast (2 ^ ?k :: sector_t),
            ti_len := 2 ^ ?k * ucast ?nz\<rparr>"])
    apply (rule exI [where x = "(kmalloc_mem env)\<lparr>dev := dm_get_device_dev env,
            zone_size := ?zs, zone_size_po2 := 2 ^ ?k,
            zone_size_po2_shift := word_of_nat ?k,
            zone_size_diff := 2 ^ ?k - ?zs, nr_zones := ?nz\<rparr>"])
    apply (rule exI [where x = ?k])
    using least eq n len
    apply (simp add: ctr_success [OF a m d l b z0 zb] f)
    done
qed

theorem ctr_builds_geometry_witness:
  "kmalloc_ok env12 \<and> dm_get_device_ret env12 = 0 \<and> ti_len ti12 = get_capacity env12 \<and>
   ti_begin ti12 = 0 \<and> 0 < unat (bdev_zone_sectors env12) \<and>
   unat (bdev_zone_sectors env12) \<le> 2 ^ 30 \<and>
   unat (get_capacity env12) div unat (bdev_zone_sectors env12) < 2 ^ 32 \<and>
   dm_po2z_ctr env12 ti12 1 = Inr (ti12\<lparr>ti_max_io_len := 16, ti_len := 160\<rparr>, geom12)"
proof -
  have m: "kmalloc_ok env12" and d: "dm_get_device_ret env12 = 0"
    and l: "ti_len ti12 = get_capacity env12" and b: "ti_begin ti12 = 0"
    and z: "0 < unat (bdev_zone_sectors env12)"
    and zb: "unat (bdev_zone_sectors env12) \<le> 2 ^ 30"
    and nz: "unat (get_capacity env12) div unat (bdev_zone_sectors env12) < 2 ^ 32"
    by (simp_all add: env12_def ti12_def)
  have c: "dm_po2z_ctr env12 ti12 1 = Inr (ti12\<lparr>ti_max_io_len := 16, ti_len := 160\<rparr>, geom12)"
    by (simp add: ctr_eval env12_def ti12_def geom12_def)
  show ?thesis
    using ctr_builds_geometry [OF refl m d l b z zb nz] m d l b z zb nz c
    by simp
qed

subsection \<open>Mapping of requests\<close>

text \<open>
  Claim C2. For every request of the logical device with at least one sector, or a
  zone-management command, whose range satisfies \<open>start + length \<le> boundary\<close>, where
  \<open>boundary = po2_zone_no start * zone_size_po2 + zone_size\<close>, the mapper returns
  \<open>DM_MAPIO_REMAPPED\<close>; the start sector becomes \<open>target_to_device_sect start\<close> and the
  length (like every other field but the device) is unchanged.
\<close>

theorem map_backed_remaps:
  assumes g: "zone_geometry dmh" and s: "sect_on_target dmh (bi_sector b)"
    and n: "bio_sectors b \<noteq> 0 \<or> op_is_zone_mgmt (bio_op b)"
    and e: "unat (bi_sector b) + unat (bio_sectors b) \<le> boundary dmh (bi_sector b)"
  shows "dm_po2z_map dmh b =
           (DM_MAPIO_REMAPPED,
            b\<lparr>bi_bdev := dev dmh, bi_sector := target_to_device_sect dmh (bi_sector b)\<rparr>)"
proof -
  have "unat (bi_sector b) + unat (bio_sectors b) \<le> target_len dmh"
    using e boundary_le_target_len [OF g s] by linarith
  then have lt: "unat (bi_sector b) + unat (bio_sectors b) < 2 ^ 64"
    using geometry_target_len [OF g] by linarith
  have "\<not> bio_across_emulated_zone_area dmh b"
    using e by (simp add: bio_across_iff [OF g s lt])
  then show ?thesis
    using n by (simp add: dm_po2z_map_def Let_def bio_set_dev_simps bio_across_set_dev)
      (simp add: bio_set_dev_def)
qed

theorem map_backed_remaps_witness:
  "zone_geometry geom12 \<and> sect_on_target geom12 (bi_sector write_16_20) \<and>
   bio_sectors write_16_20 = 4 \<and>
   boundary geom12 (bi_sector write_16_20) = 28 \<and>
   unat (bi_sector write_16_20) + unat (bio_sectors write_16_20) = 20 \<and>
   dm_po2z_map geom12 write_16_20 =
     (DM_MAPIO_REMAPPED, write_16_20\<lparr>bi_bdev := 0, bi_sector := 12\<rparr>)"
proof -
  have s: "sect_on_target geom12 (bi_sector write_16_20)"
    using geom12_sectors(4) by (simp add: write_16_20_def)
  have n: "bio_sectors write_16_20 = 4"
    by (simp add: write_16_20_def bio_sectors_def SECTOR_SHIFT_def)
  have bd: "boundary geom12 (bi_sector write_16_20) = 28"
    using geom12_boundary(4) by (simp add: write_16_20_def)
  have e: "unat (bi_sector write_16_20) + unat (bio_sectors write_16_20) = 20"
    by (simp add: n) (simp add: write_16_20_def)
  have t: "target_to_device_sect geom12 (bi_sector write_16_20) = 12"
    by (simp add: write_16_20_def geom12_eval)
  have d: "dev geom12 = 0" by (simp add: geom12_def)
  show ?thesis
    using map_backed_remaps [OF geom12_geometry s, of] geom12_geometry s n bd e
    by (simp add: t d)
qed




text \<open>
  Claim C4, as stated, fails for a request without sectors that is no zone-management
  command: a write of length 0 at sector 13 of the example device has
  \<open>start + length = 13 > 12 = boundary\<close>, yet the mapper returns
  \<open>DM_MAPIO_REMAPPED\<close> and leaves the sector alone, because such requests bypass the
  test of the range.
\<close>

theorem map_empty_write_not_rejected:
  "zone_geometry geom12 \<and> bio_on_target geom12 empty_write_13 \<and>
   bio_op empty_write_13 = REQ_OP_WRITE \<and>
   boundary geom12 (bi_sector empty_write_13) = 12 \<and>
   unat (bi_sector empty_write_13) + unat (bio_sectors empty_write_13) = 13 \<and>
   dm_po2z_map geom12 empty_write_13 = (DM_MAPIO_REMAPPED, empty_write_13\<lparr>bi_bdev := 0\<rparr>)"
proof -
  have "bio_on_target geom12 empty_write_13"
    using geom12_sectors(3)
    by (simp add: bio_on_target_def empty_write_13_def bio_sectors_def target_len_def geom12_def)
  moreover have "boundary geom12 (bi_sector empty_write_13) = 12"
    using geom12_boundary(3) by (simp add: empty_write_13_def)
  moreover have "dm_po2z_map geom12 empty_write_13 =
      (DM_MAPIO_REMAPPED, empty_write_13\<lparr>bi_bdev := 0\<rparr>)"
    by (simp add: map_eval empty_write_13_def geom12_def)
  ultimately show ?thesis
    using geom12_geometry
    by (simp add: empty_write_13_def bio_op_def bio_sectors_def)
qed

text \<open>
  Claim C4, amended. For every request of the logical device that carries at least one
  sector or is a zone-management command, whose operation is not a read and whose range
  satisfies \<open>start + length > boundary\<close> for its zone, the mapper returns
  \<open>DM_MAPIO_KILL\<close> and changes nothing but the device of the request.
\<close>

theorem map_emulated_non_read_rejected:
  assumes g: "zone_geometry dmh" and t: "bio_on_target dmh b"
    and n: "bio_sectors b \<noteq> 0 \<or> op_is_zone_mgmt (bio_op b)"
    and r: "bio_op b \<noteq> REQ_OP_READ"
    and e: "boundary dmh (bi_sector b) < unat (bi_sector b) + unat (bio_sectors b)"
  shows "dm_po2z_map dmh b = (DM_MAPIO_KILL, b\<lparr>bi_bdev := dev dmh\<rparr>)"
proof -
  have s: "sect_on_target dmh (bi_sector b)" using t by (simp add: bio_on_target_def)
  have "bio_across_emulated_zone_area dmh b"
    using e by (simp add: bio_across_iff [OF g s bio_on_target_end [OF g t]])
  then show ?thesis
    using n r by (simp add: dm_po2z_map_def Let_def bio_set_dev_simps bio_across_set_dev)
      (simp add: bio_set_dev_def)
qed

theorem map_emulated_non_read_rejected_witness:
  "zone_geometry geom12 \<and> bio_on_target geom12 write_10_14 \<and>
   bio_sectors write_10_14 \<noteq> 0 \<and> bio_op write_10_14 \<noteq> REQ_OP_READ \<and>
   boundary geom12 (bi_sector write_10_14) = 12 \<and>
   unat (bi_sector write_10_14) + unat (bio_sectors write_10_14) = 14 \<and>
   dm_po2z_map geom12 write_10_14 = (DM_MAPIO_KILL, write_10_14\<lparr>bi_bdev := 0\<rparr>)"
proof -
  have n: "bio_sectors write_10_14 = 4"
    by (simp add: write_10_14_def bio_sectors_def SECTOR_SHIFT_def)
  have s: "bi_sector write_10_14 = 10" by (simp add: write_10_14_def)
  have t: "bio_on_target geom12 write_10_14"
    using geom12_sectors(1)
    by (simp add: bio_on_target_def n s) (simp add: target_len_def geom12_def)
  have o: "bio_op write_10_14 \<noteq> REQ_OP_READ" by (simp add: write_10_14_def bio_op_def)
  have d: "dev geom12 = 0" by (simp add: geom12_def)
  show ?thesis
    using map_emulated_non_read_rejected [OF geom12_geometry t _ o] geom12_geometry t o
    by (simp add: n s geom12_boundary d)
qed

text \<open>
  Claim C9, as stated, fails: a flush without sectors at logical sector 16 of the
  example device leaves the mapper with sector 16, while the translation of sector 16 is
  12, which is what the same request with one sector is remapped to.
\<close>

theorem map_empty_flush_not_translated:
  "bio_sectors flush_16 = 0 \<and>
   dm_po2z_map geom12 flush_16 = (DM_MAPIO_REMAPPED, flush_16\<lparr>bi_bdev := 0\<rparr>) \<and>
   bi_sector (snd (dm_po2z_map geom12 flush_16)) = 16 \<and>
   target_to_device_sect geom12 (bi_sector flush_16) = 12 \<and>
   bi_sector (snd (dm_po2z_map geom12 (flush_16\<lparr>bi_size := 512\<rparr>))) = 12"
  by (simp add: map_eval flush_16_def geom12_eval)

text \<open>
  Claim C9, amended. For every request that carries no sectors and is not a
  zone-management command, the mapper sets the device and returns
  \<open>DM_MAPIO_REMAPPED\<close> at once: the sector is passed through without the test of the
  boundary and without coordinate translation.
\<close>

theorem map_no_sectors_passes_through:
  assumes "bio_sectors b = 0" and "\<not> op_is_zone_mgmt (bio_op b)"
  shows "dm_po2z_map dmh b = (DM_MAPIO_REMAPPED, b\<lparr>bi_bdev := dev dmh\<rparr>)"
  using assms by (simp add: dm_po2z_map_def Let_def bio_set_dev_simps) (simp add: bio_set_dev_def)

theorem map_no_sectors_passes_through_witness:
  "bio_sectors flush_16 = 0 \<and> \<not> op_is_zone_mgmt (bio_op flush_16) \<and>
   dm_po2z_map geom12 flush_16 = (DM_MAPIO_REMAPPED, flush_16\<lparr>bi_bdev := 0\<rparr>)"
proof -
  have n: "bio_sectors flush_16 = 0" by (simp add: flush_16_def bio_sectors_def)
  have z: "\<not> op_is_zone_mgmt (bio_op flush_16)"
    by (simp add: flush_16_def bio_op_def op_is_zone_mgmt_def)
  have d: "dev geom12 = 0" by (simp add: geom12_def)
  show ?thesis
    using map_no_sectors_passes_through [OF n z, of geom12] n z by (simp add: d)
qed

subsection \<open>Completion\<close>

text \<open>
  Claim C8. For every completed request, the completion hook rewrites the sector to
  \<open>device_to_target_sect sector\<close> if and only if the operation is a zone append and
  the status is \<open>BLK_STS_OK\<close> (the translation divides by the zone size, which is not 0
  in a geometry the constructor has built); in every other case, a different operation
  or any failure status, the request passes through unchanged.
\<close>

theorem end_io_rewrites_append:
  "(bio_op b = REQ_OP_ZONE_APPEND \<and> bi_status b = BLK_STS_OK \<and> zone_size dmh \<noteq> 0 \<longrightarrow>
      (\<exists>sect. device_to_target_sect dmh (bi_sector b) = Some sect \<and>
         dm_po2z_end_io dmh b = Some (DM_ENDIO_DONE, b\<lparr>bi_sector := sect\<rparr>))) \<and>
   (\<not> (bio_op b = REQ_OP_ZONE_APPEND \<and> bi_status b = BLK_STS_OK) \<longrightarrow>
      dm_po2z_end_io dmh b = Some (DM_ENDIO_DONE, b))"
  by (auto simp add: dm_po2z_end_io_def device_to_target_sect_def npo2_zone_no_def)

theorem end_io_rewrites_append_witness:
  "bio_op append_14 = REQ_OP_ZONE_APPEND \<and> bi_status append_14 = BLK_STS_OK \<and>
   zone_size geom12 \<noteq> 0 \<and>
   device_to_target_sect geom12 (bi_sector append_14) = Some 18 \<and>
   dm_po2z_end_io geom12 append_14 = Some (DM_ENDIO_DONE, append_14\<lparr>bi_sector := 18\<rparr>) \<and>
   bi_status (append_14\<lparr>bi_status := 10\<rparr>) \<noteq> BLK_STS_OK \<and>
   dm_po2z_end_io geom12 (append_14\<lparr>bi_status := 10\<rparr>) =
     Some (DM_ENDIO_DONE, append_14\<lparr>bi_status := 10\<rparr>) \<and>
   bio_op (append_14\<lparr>bi_op := REQ_OP_WRITE\<rparr>) \<noteq> REQ_OP_ZONE_APPEND \<and>
   dm_po2z_end_io geom12 (append_14\<lparr>bi_op := REQ_OP_WRITE\<rparr>) =
     Some (DM_ENDIO_DONE, append_14\<lparr>bi_op := REQ_OP_WRITE\<rparr>)"
proof -
  have d: "device_to_target_sect geom12 (bi_sector append_14) = Some 18"
    by (simp add: append_14_def geom12_eval)
  have z: "zone_size geom12 \<noteq> 0" by (simp add: geom12_def)
  have o: "bi_op append_14 = REQ_OP_ZONE_APPEND" "bi_status append_14 = 0"
    by (simp_all add: append_14_def)
  show ?thesis
    using end_io_rewrites_append [of append_14 geom12]
      end_io_rewrites_append [of "append_14\<lparr>bi_status := 10\<rparr>" geom12]
      end_io_rewrites_append [of "append_14\<lparr>bi_op := REQ_OP_WRITE\<rparr>" geom12]
    by (simp add: d z o BLK_STS_OK_def bio_op_def)
qed

subsection \<open>Zone reports\<close>

text \<open>
  Claim C6. For every physical zone descriptor handed to the report callback (of a
  geometry with a zone size other than 0, so that the division is defined), the
  translated descriptor has \<open>start = device_to_target_sect start\<close>,
  \<open>wp = device_to_target_sect wp\<close> and \<open>len = zone_size_po2\<close>, whatever the physical
  length was; the cursor of the caller is advanced to \<open>start + len\<close> of the translated
  descriptor; type, condition and the other fields of the descriptor are unchanged; the
  caller's callback receives the translated descriptor with the running zone index.
\<close>

theorem report_zones_cb_translates:
  assumes "zone_size dmh \<noteq> 0"
  shows "\<exists>start wp.
      device_to_target_sect dmh (zone_start zone) = Some start \<and>
      device_to_target_sect dmh (zone_wp zone) = Some wp \<and>
      dm_po2z_report_zones_cb dmh zone idx args =
        Some (orig_cb args
                (zone\<lparr>zone_start := start, zone_wp := wp, zone_len := zone_size_po2 dmh\<rparr>)
                (zone_idx args),
              zone\<lparr>zone_start := start, zone_wp := wp, zone_len := zone_size_po2 dmh\<rparr>,
              args\<lparr>next_sector := start + zone_size_po2 dmh,
                   zone_idx := zone_idx args + 1\<rparr>) \<and>
      zone_type (zone\<lparr>zone_start := start, zone_wp := wp, zone_len := zone_size_po2 dmh\<rparr>)
        = zone_type zone \<and>
      zone_cond (zone\<lparr>zone_start := start, zone_wp := wp, zone_len := zone_size_po2 dmh\<rparr>)
        = zone_cond zone"
  using assms
  by (simp add: dm_po2z_report_zones_cb_def device_to_target_sect_def npo2_zone_no_def Let_def)

theorem report_zones_cb_translates_witness:
  "zone_size geom12 \<noteq> 0 \<and>
   device_to_target_sect geom12 (zone_start zone_12) = Some 16 \<and>
   device_to_target_sect geom12 (zone_wp zone_12) = Some 18 \<and>
   dm_po2z_report_zones_cb geom12 zone_12 0 args_12 =
     Some (0, zone_12\<lparr>zone_start := 16, zone_wp := 18, zone_len := 16\<rparr>,
           args_12\<lparr>next_sector := 32, zone_idx := 2\<rparr>)"
proof -
  have z: "zone_size geom12 \<noteq> 0" by (simp add: geom12_def)
  have d: "device_to_target_sect geom12 (zone_start zone_12) = Some 16"
    "device_to_target_sect geom12 (zone_wp zone_12) = Some 18"
    by (simp_all add: zone_12_def geom12_eval)
  have a: "zone_idx args_12 = 1" "orig_cb args_12 = (\<lambda>z i. 0)" "zone_size_po2 geom12 = 16"
    by (simp_all add: args_12_def geom12_def)
  show ?thesis
    using report_zones_cb_translates [OF z, of zone_12 0 args_12] z
    by (simp add: d a)
qed

text \<open>
  Claim C7, as stated, fails: for the cursor 12 on the example device the physical zone
  index \<open>12 div 12 = 1\<close> would start the query at sector 12, but the query starts at
  sector 0.
\<close>

theorem report_zones_start_not_physical_index:
  "query_sector (dm_po2z_report_zones geom12 args_12 1) = 0 \<and>
   next_sector args_12 = 12 \<and>
   npo2_zone_no geom12 (next_sector args_12) = Some 1 \<and>
   ucast (1 :: uint) * zone_size geom12 = 12"
  by (simp add: dm_po2z_report_zones_def args_12_def geom12_eval)

text \<open>
  Claim C7, amended. For every logical cursor sector \<open>c\<close>, a zone-enumeration request
  starts the physical query at sector \<open>po2_zone_no c * zone_size\<close>: the zone index is
  the logical one, the cursor shifted right by the shift of the geometry. For a cursor
  on the logical device of a well-formed geometry this is
  \<open>(c div zone_size_po2) * zone_size\<close>, the physical start of the zone that holds the
  cursor.
\<close>

theorem report_zones_query_start:
  "dm_po2z_report_zones dmh args nr =
     \<lparr>query_bdev = dev dmh,
      query_sector = ucast (po2_zone_no dmh (next_sector args)) * zone_size dmh,
      query_nr_zones = nr\<rparr>
   \<and> (zone_geometry dmh \<and> sect_on_target dmh (next_sector args) \<longrightarrow>
        unat (query_sector (dm_po2z_report_zones dmh args nr)) =
          unat (next_sector args) div unat (zone_size_po2 dmh) * unat (zone_size dmh))"
proof (intro conjI impI)
  show e: "dm_po2z_report_zones dmh args nr =
     \<lparr>query_bdev = dev dmh,
      query_sector = ucast (po2_zone_no dmh (next_sector args)) * zone_size dmh,
      query_nr_zones = nr\<rparr>"
    by (simp add: dm_po2z_report_zones_def)
  assume "zone_geometry dmh \<and> sect_on_target dmh (next_sector args)"
  then have g: "zone_geometry dmh" and s: "sect_on_target dmh (next_sector args)"
    by simp_all
  let ?z = "po2_zone_no dmh (next_sector args)"
  have "unat ?z * unat (zone_size dmh) \<le> unat ?z * unat (zone_size_po2 dmh)"
    using geometry_zone_size(2) [OF g] by simp
  also have "\<dots> \<le> unat (next_sector args)" by (rule zone_start_le [OF g s])
  finally have "unat ?z * unat (zone_size dmh) < 2 ^ 64"
    using unat_sector_bound [of "next_sector args"] by linarith
  then have "unat (ucast ?z * zone_size dmh) = unat ?z * unat (zone_size dmh)"
    by (rule unat_zone_times)
  then show "unat (query_sector (dm_po2z_report_zones dmh args nr)) =
          unat (next_sector args) div unat (zone_size_po2 dmh) * unat (zone_size dmh)"
    by (simp add: e po2_zone_no_unat [OF g s])
qed

theorem report_zones_query_start_witness:
  "zone_geometry geom12 \<and> sect_on_target geom12 (next_sector args_12) \<and>
   dm_po2z_report_zones geom12 args_12 1 =
     \<lparr>query_bdev = 0, query_sector = 0, query_nr_zones = 1\<rparr> \<and>
   unat (next_sector args_12) div unat (zone_size_po2 geom12) * unat (zone_size geom12) = 0"
proof -
  have s: "sect_on_target geom12 (next_sector args_12)"
    using geom12_sectors(2) by (simp add: args_12_def)
  have z: "po2_zone_no geom12 (next_sector args_12) = 0"
    by (simp add: args_12_def geom12_eval)
  have d: "dev geom12 = 0" "unat (zone_size_po2 geom12) = 16" "unat (next_sector args_12) = 12"
    by (simp_all add: geom12_def args_12_def)
  show ?thesis
    using report_zones_query_start [of geom12 args_12 1] geom12_geometry s
    by (simp add: z d)
qed

end
